theory Spec2Isabelle
  imports Main "HOL-Library.Sublist"
begin

section \<open>Values of the client\<close>

text \<open>
  The client never computes with a number or with one of the fields typed \<^verbatim>\<open>any\<close>: it
  stores them and hands them on. Numbers are therefore values of a type parameter \<open>'n\<close>
  and the \<^verbatim>\<open>any\<close> fields values of a type parameter \<open>'a\<close>.
\<close>

text \<open>
  What a \<^verbatim>\<open>throw\<close> or a rejected promise carries. The handlers test
  \<^verbatim>\<open>err instanceof Error\<close> and read \<^verbatim>\<open>err.message\<close>, nothing else.
\<close>

datatype thrown = Error (message: string) | NotAnError

text \<open>\<^verbatim>\<open>interface CropRecommendation\<close> of CropsPage.tsx, field by field.\<close>

record 'n Scores =
  overall_score :: 'n
  confidence_pct :: 'n
  env_score :: 'n
  econ_score :: 'n
  time_fit_score :: 'n
  season_score :: 'n
  labor_score :: 'n
  risk_score :: 'n
  market_score :: 'n

record ('n, 'a) CropRecommendation =
  crop :: string
  searchable_name :: "string option"
  image_url :: "string option"
  scientific_name :: string
  category :: string
  scores :: "'n Scores"
  growth_requirements :: 'a
  tolerances :: 'a
  management :: 'a
  economics :: 'a
  market_strategy :: 'a
  planting_schedule :: 'a
  risk_assessment :: 'a
  reasoning :: string

text \<open>\<^verbatim>\<open>interface FarmerFormData\<close> of CropsPage.tsx.\<close>

record 'n FarmerFormData =
  crop_category :: string
  budget_php :: 'n
  waiting_tolerance_days :: 'n
  land_size_ha :: 'n
  manpower :: 'n

text \<open>
  The sensor reading held by the history page. Its interface \<^verbatim>\<open>SensorData\<close> is not
  among the sources; the page assigns it from untyped JSON
  (\<^verbatim>\<open>setSensorData(sensorInfo.current_sensors)\<close>), so at run time each of the four
  fields may be \<^verbatim>\<open>undefined\<close>: \<open>None\<close>.
\<close>

record 'n SensorData =
  soil_moisture_pct :: "'n option"
  temperature_c :: "'n option"
  humidity_pct :: "'n option"
  light_lux :: "'n option"

text \<open>
  The body of the POST to the hardware endpoint, the backend's \<^verbatim>\<open>HardwareSensorData\<close>:
  the four readings and \<^verbatim>\<open>already_generated: Optional[List[str]] = []\<close>.
  \<^verbatim>\<open>JSON.stringify\<close> leaves out a field whose value is \<^verbatim>\<open>undefined\<close>.
\<close>

record 'n HardwareSensorData = "'n SensorData" +
  already_generated :: "string list option"

section \<open>Requests and responses\<close>

text \<open>
  The five requests of the two pages, by endpoint. \<^verbatim>\<open>API_BASE_URL\<close> comes from a
  configuration module that is not among the sources; a request is identified by its
  method, its path and its body.
  \<^item> \<open>GetLatest id\<close>: \<^verbatim>\<open>GET /recommendations/{id}/latest\<close>
  \<^item> \<open>PostGenerate id formData\<close>: \<^verbatim>\<open>POST /recommendations/generate\<close> with
    \<^verbatim>\<open>{sensor_id: id, farmer: formData}\<close>
  \<^item> \<open>PostHardwareReadings sensorId body\<close>:
    \<^verbatim>\<open>POST /recommendations/hardware/{sensorId}/readings\<close>
  \<^item> \<open>GetSession sessionId\<close>: \<^verbatim>\<open>GET /recommendations/session/{session_id}\<close>
  \<^item> \<open>GetSensor sensor_id\<close>: \<^verbatim>\<open>GET /sensors/{sensor_id}\<close>
\<close>

datatype 'n request =
    GetLatest string
  | PostGenerate string "'n FarmerFormData"
  | PostHardwareReadings string "'n HardwareSensorData"
  | GetSession string
  | GetSensor string

text \<open>
  The fields that the client reads from a parsed response body: \<^verbatim>\<open>data.recommendations\<close>,
  \<^verbatim>\<open>data.sensor_id\<close> and \<^verbatim>\<open>sensorInfo.current_sensors\<close>. \<open>None\<close> is a field that
  is absent (\<^verbatim>\<open>undefined\<close>) or \<^verbatim>\<open>null\<close>. The state variable that receives
  \<^verbatim>\<open>data.recommendations\<close> is declared \<^verbatim>\<open>CropRecommendation[] | null\<close>, so a present
  field is a list.
\<close>

record ('n, 'a) data =
  recommendations :: "('n, 'a) CropRecommendation list option"
  sensor_id :: "string option"
  current_sensors :: "'n SensorData option"

text \<open>
  \<^verbatim>\<open>await response.json()\<close> either gives an object or makes the statement that reads
  the body throw: \<open>JsonThrows\<close> stands for a body that does not parse and for the body
  \<^verbatim>\<open>null\<close>, on which the property read right after the \<^verbatim>\<open>await\<close> throws a
  \<^verbatim>\<open>TypeError\<close> in the same \<^verbatim>\<open>try\<close> block.
\<close>

datatype 'd json = JsonThrows thrown | JsonObject 'd

datatype 'd response = Response (status: nat) (json: "'d json")

datatype 'd fetch_result = Rejects thrown | Resolves "'d response"

text \<open>\<^verbatim>\<open>response.ok\<close>: the status is in the range 200 to 299.\<close>

definition ok :: "'d response \<Rightarrow> bool" where
  "ok response = (200 \<le> status response \<and> status response \<le> 299)"

text \<open>
  The environment of a handler: the state \<open>world\<close> of whatever answers the requests,
  the requests sent so far, and what was written with \<^verbatim>\<open>console.error\<close>.
  The network is any function that answers a request and moves the world on.
\<close>

record ('n, 'w) env =
  world :: 'w
  sent :: "'n request list"
  console :: "(string \<times> thrown) list"

type_synonym ('n, 'a, 'w) network =
  "'n request \<Rightarrow> 'w \<Rightarrow> ('n, 'a) data fetch_result \<times> 'w"

definition fetch ::
  "('n, 'a, 'w) network \<Rightarrow> 'n request \<Rightarrow> ('n, 'w) env
     \<Rightarrow> ('n, 'a) data fetch_result \<times> ('n, 'w) env" where
  "fetch net req e =
     (case net req (world e) of
        (r, w') \<Rightarrow> (r, e\<lparr>world := w', sent := sent e @ [req]\<rparr>))"

definition console_error :: "string \<Rightarrow> thrown \<Rightarrow> ('n, 'w) env \<Rightarrow> ('n, 'w) env" where
  "console_error label err e = e\<lparr>console := console e @ [(label, err)]\<rparr>"

text \<open>JavaScript truthiness of a string that may be \<^verbatim>\<open>undefined\<close> or \<^verbatim>\<open>null\<close>.\<close>

fun truthy :: "string option \<Rightarrow> bool" where
  "truthy None = False"
| "truthy (Some s) = (s \<noteq> [])"

section \<open>CropsPage.tsx\<close>

text \<open>
  The four state variables of \<^verbatim>\<open>CropsPage\<close>. \<^verbatim>\<open>null\<close> and \<^verbatim>\<open>undefined\<close> in
  \<^verbatim>\<open>recommendations\<close> are both \<open>None\<close>: the page only tests the variable for truthiness.
\<close>

record ('n, 'a) CropsPage =
  recommendations :: "('n, 'a) CropRecommendation list option"
  isLoading :: bool
  isGenerating :: bool
  error :: "string option"

text \<open>
  \<^verbatim>\<open>err instanceof Error ? err.message : fallback\<close>, the expression of both
  \<^verbatim>\<open>catch\<close> blocks that set the error banner.
\<close>

fun error_message :: "thrown \<Rightarrow> string \<Rightarrow> string" where
  "error_message (Error m) fallback = m"
| "error_message NotAnError fallback = fallback"

text \<open>
  The \<^verbatim>\<open>try\<close> block of \<^verbatim>\<open>checkExistingRecommendations\<close>. The first component
  is what the block throws, if it throws; the state and the environment are those
  reached at that point.
\<close>

definition checkExistingRecommendations_try ::
  "('n, 'a, 'w) network \<Rightarrow> string \<Rightarrow> ('n, 'a) CropsPage \<times> ('n, 'w) env
     \<Rightarrow> thrown option \<times> ('n, 'a) CropsPage \<times> ('n, 'w) env" where
  "checkExistingRecommendations_try net id' se =
     (case se of (s, e) \<Rightarrow>
        let s1 = s\<lparr>isLoading := True\<rparr> in
        (case fetch net (GetLatest id') e of
           (Rejects err, e1) \<Rightarrow> (Some err, s1, e1)
         | (Resolves response, e1) \<Rightarrow>
             if ok response then
               (case json response of
                  JsonThrows err \<Rightarrow> (Some err, s1, e1)
                | JsonObject d \<Rightarrow>
                    (case data.recommendations d of
                       Some (r # rs) \<Rightarrow>
                         (None, s1\<lparr>recommendations := Some (r # rs)\<rparr>, e1)
                     | _ \<Rightarrow> (None, s1\<lparr>recommendations := None\<rparr>, e1)))
             else if status response = 404 then
               (None, s1\<lparr>recommendations := None\<rparr>, e1)
             else (Some (Error ''Failed to check recommendations''), s1, e1)))"

text \<open>
  \<^verbatim>\<open>checkExistingRecommendations\<close>: the guard \<^verbatim>\<open>if (!id) return\<close>, the
  \<^verbatim>\<open>try\<close> block, the \<^verbatim>\<open>catch\<close> block (\<^verbatim>\<open>console.error\<close> and
  \<^verbatim>\<open>setRecommendations(null)\<close>) and the \<^verbatim>\<open>finally\<close> block.
\<close>

definition checkExistingRecommendations ::
  "('n, 'a, 'w) network \<Rightarrow> string option \<Rightarrow> ('n, 'a) CropsPage \<times> ('n, 'w) env
     \<Rightarrow> ('n, 'a) CropsPage \<times> ('n, 'w) env" where
  "checkExistingRecommendations net id' se =
     (if \<not> truthy id' then se
      else
        (case checkExistingRecommendations_try net (the id') se of
           (None, s2, e2) \<Rightarrow> (s2\<lparr>isLoading := False\<rparr>, e2)
         | (Some err, s2, e2) \<Rightarrow>
             (s2\<lparr>recommendations := None, isLoading := False\<rparr>,
              console_error ''Error checking recommendations:'' err e2)))"

text \<open>The \<^verbatim>\<open>try\<close> block of \<^verbatim>\<open>handleFormSubmit\<close>.\<close>

definition handleFormSubmit_try ::
  "('n, 'a, 'w) network \<Rightarrow> string \<Rightarrow> 'n FarmerFormData
     \<Rightarrow> ('n, 'a) CropsPage \<times> ('n, 'w) env
     \<Rightarrow> thrown option \<times> ('n, 'a) CropsPage \<times> ('n, 'w) env" where
  "handleFormSubmit_try net id' formData se =
     (case se of (s, e) \<Rightarrow>
        let s1 = s\<lparr>isGenerating := True, error := None\<rparr> in
        (case fetch net (PostGenerate id' formData) e of
           (Rejects err, e1) \<Rightarrow> (Some err, s1, e1)
         | (Resolves response, e1) \<Rightarrow>
             if \<not> ok response then
               (Some (Error ''Failed to generate recommendations''), s1, e1)
             else
               (case json response of
                  JsonThrows err \<Rightarrow> (Some err, s1, e1)
                | JsonObject d \<Rightarrow>
                    (None, s1\<lparr>recommendations := data.recommendations d\<rparr>, e1))))"

definition handleFormSubmit ::
  "('n, 'a, 'w) network \<Rightarrow> string option \<Rightarrow> 'n FarmerFormData
     \<Rightarrow> ('n, 'a) CropsPage \<times> ('n, 'w) env
     \<Rightarrow> ('n, 'a) CropsPage \<times> ('n, 'w) env" where
  "handleFormSubmit net id' formData se =
     (if \<not> truthy id' then se
      else
        (case handleFormSubmit_try net (the id') formData se of
           (None, s2, e2) \<Rightarrow> (s2\<lparr>isGenerating := False\<rparr>, e2)
         | (Some err, s2, e2) \<Rightarrow>
             (s2\<lparr>error := Some (error_message err ''An error occurred''),
                 isGenerating := False\<rparr>, e2)))"

text \<open>
  What \<^verbatim>\<open>CropsPage\<close> renders: the spinner while \<^verbatim>\<open>isLoading\<close>; otherwise the
  error banner when \<^verbatim>\<open>error\<close> is truthy, and either the farmer form (when
  \<^verbatim>\<open>recommendations\<close> is falsy) or one card per recommendation.
\<close>

datatype 'n content =
    FarmerForm bool
  | CropCards "(string \<times> string \<times> 'n \<times> string option) list"

datatype 'n view = Spinner | Page "string option" "'n content"

definition render :: "('n, 'a) CropsPage \<Rightarrow> 'n view" where
  "render s =
     (if isLoading s then Spinner
      else Page (if truthy (error s) then error s else None)
             (case recommendations s of
                None \<Rightarrow> FarmerForm (isGenerating s)
              | Some rs \<Rightarrow>
                  CropCards (map (\<lambda>crop. (CropRecommendation.crop crop, category crop,
                                           overall_score (scores crop), image_url crop)) rs)))"

section \<open>HistoryDetailPage.tsx, as given in the implementation guide\<close>

text \<open>
  The variables of the history page that \<^verbatim>\<open>handleLoadMore\<close> and
  \<^verbatim>\<open>fetchSessionDetails\<close> read and write. \<^verbatim>\<open>recommendations\<close> is an array here
  (the handler calls \<^verbatim>\<open>recommendations.map\<close> on it).
\<close>

record ('n, 'a) HistoryDetailPage =
  recommendations :: "('n, 'a) CropRecommendation list"
  sensorId :: "string option"
  sensorData :: "'n SensorData option"
  isLoadingMore :: bool
  error :: "string option"

text \<open>
  \<^verbatim>\<open>fetchSessionDetails\<close> begins with code that the guide leaves out
  (\<^verbatim>\<open>// ... existing code to fetch recommendations ...\<close>). That code is a parameter of
  the model: it may change the page and the environment, and it either reaches the code
  that follows with the session object \<^verbatim>\<open>data\<close>, or returns, or throws.
\<close>

datatype 'd existing_outcome = Reaches 'd | Returns | Throws thrown

type_synonym ('n, 'a, 'w) existing_code =
  "('n, 'a) HistoryDetailPage \<times> ('n, 'w) env
     \<Rightarrow> ('n, 'a) data existing_outcome \<times> ('n, 'a) HistoryDetailPage \<times> ('n, 'w) env"

text \<open>
  \<^verbatim>\<open>fetchSessionDetails\<close>: after the existing code, the request for the sensor's current
  data when \<^verbatim>\<open>data.sensor_id\<close> is truthy, inside its own \<^verbatim>\<open>try\<close>/\<^verbatim>\<open>catch\<close>.
\<close>

definition fetchSessionDetails ::
  "('n, 'a, 'w) network \<Rightarrow> ('n, 'a, 'w) existing_code
     \<Rightarrow> ('n, 'a) HistoryDetailPage \<times> ('n, 'w) env
     \<Rightarrow> thrown option \<times> ('n, 'a) HistoryDetailPage \<times> ('n, 'w) env" where
  "fetchSessionDetails net existing se =
     (case existing se of
        (Throws err, s1, e1) \<Rightarrow> (Some err, s1, e1)
      | (Returns, s1, e1) \<Rightarrow> (None, s1, e1)
      | (Reaches d, s1, e1) \<Rightarrow>
          if truthy (sensor_id d) then
            (case fetch net (GetSensor (the (sensor_id d))) e1 of
               (Rejects err, e2) \<Rightarrow>
                 (None, s1, console_error ''Failed to fetch sensor data:'' err e2)
             | (Resolves sensorResponse, e2) \<Rightarrow>
                 if ok sensorResponse then
                   (case json sensorResponse of
                      JsonThrows err \<Rightarrow>
                        (None, s1, console_error ''Failed to fetch sensor data:'' err e2)
                    | JsonObject sensorInfo \<Rightarrow>
                        (None, s1\<lparr>sensorData := current_sensors sensorInfo\<rparr>, e2))
                 else (None, s1, e2))
          else (None, s1, e1))"

text \<open>
  \<^verbatim>\<open>handleLoadMore\<close> up to its first \<^verbatim>\<open>await\<close>: the guard on \<^verbatim>\<open>sensorId\<close> and
  \<^verbatim>\<open>sensorData\<close>, the two state updates, the list \<^verbatim>\<open>alreadyGenerated\<close> and the
  request. \<open>Inl\<close> is the early return, \<open>Inr\<close> the state and the request to send.
\<close>

definition handleLoadMore_begin ::
  "('n, 'a) HistoryDetailPage
     \<Rightarrow> ('n, 'a) HistoryDetailPage + ('n, 'a) HistoryDetailPage \<times> 'n request" where
  "handleLoadMore_begin s =
     (if \<not> truthy (sensorId s) \<or> sensorData s = None then
        Inl (s\<lparr>error := Some ''Cannot load more recommendations: sensor data not available''\<rparr>)
      else
        let s1 = s\<lparr>isLoadingMore := True, error := None\<rparr>;
            alreadyGenerated = map (\<lambda>crop. CropRecommendation.crop crop) (recommendations s)
        in Inr (s1,
             PostHardwareReadings (the (sensorId s))
               \<lparr>soil_moisture_pct = soil_moisture_pct (the (sensorData s)),
                temperature_c = temperature_c (the (sensorData s)),
                humidity_pct = humidity_pct (the (sensorData s)),
                light_lux = light_lux (the (sensorData s)),
                already_generated = Some alreadyGenerated\<rparr>))"

text \<open>
  The rest of \<^verbatim>\<open>handleLoadMore\<close>, from the moment the request settles with \<open>r\<close>:
  the test of \<^verbatim>\<open>response.ok\<close>, \<^verbatim>\<open>await fetchSessionDetails()\<close>, the \<^verbatim>\<open>catch\<close>
  block and the \<^verbatim>\<open>finally\<close> block. The response body is never read.
\<close>

definition handleLoadMore_resume ::
  "('n, 'a, 'w) network \<Rightarrow> ('n, 'a, 'w) existing_code \<Rightarrow> ('n, 'a) data fetch_result
     \<Rightarrow> ('n, 'a) HistoryDetailPage \<times> ('n, 'w) env
     \<Rightarrow> ('n, 'a) HistoryDetailPage \<times> ('n, 'w) env" where
  "handleLoadMore_resume net existing r se =
     (case (case r of
              Rejects err \<Rightarrow> (Some err, se)
            | Resolves response \<Rightarrow>
                if \<not> ok response then
                  (Some (Error ''Failed to generate more recommendations''), se)
                else fetchSessionDetails net existing se) of
        (None, s2, e2) \<Rightarrow> (s2\<lparr>isLoadingMore := False\<rparr>, e2)
      | (Some err, s2, e2) \<Rightarrow>
          (s2\<lparr>error := Some (error_message err ''Failed to load more recommendations''),
              isLoadingMore := False\<rparr>, e2))"

definition handleLoadMore ::
  "('n, 'a, 'w) network \<Rightarrow> ('n, 'a, 'w) existing_code
     \<Rightarrow> ('n, 'a) HistoryDetailPage \<times> ('n, 'w) env
     \<Rightarrow> ('n, 'a) HistoryDetailPage \<times> ('n, 'w) env" where
  "handleLoadMore net existing se =
     (case se of (s, e) \<Rightarrow>
        (case handleLoadMore_begin s of
           Inl s' \<Rightarrow> (s', e)
         | Inr (s1, req) \<Rightarrow>
             (case fetch net req e of
                (r, e1) \<Rightarrow> handleLoadMore_resume net existing r (s1, e1))))"

text \<open>
  The Load More button: \<^verbatim>\<open>onClick={handleLoadMore}\<close> and
  \<^verbatim>\<open>disabled={isLoadingMore || !sensorData}\<close>.
\<close>

definition button_disabled :: "('n, 'a) HistoryDetailPage \<Rightarrow> bool" where
  "button_disabled s = (isLoadingMore s \<or> sensorData s = None)"

text \<open>
  The history page between events. Three things happen to it.
  \<^item> A click on the button runs \<^verbatim>\<open>handleLoadMore\<close> up to its first \<^verbatim>\<open>await\<close>,
    unless the button is disabled; the request is then in flight.
  \<^item> The oldest request in flight settles, and the rest of its handler runs.
  \<^item> The page is mounted anew. App.tsx renders \<^verbatim>\<open><Routes location={location}
    key={location.pathname}>\<close> with the routes \<^verbatim>\<open>/history/:sessionId\<close> and
    \<^verbatim>\<open>/history/:sessionId/crops/:cropIndex\<close>, so opening a crop and coming back
    unmounts \<^verbatim>\<open>HistoryDetailPage\<close> and mounts a new instance. The new instance starts
    from the initial values of its state variables: \<^verbatim>\<open>useState<SensorData | null>(null)\<close>
    and \<^verbatim>\<open>useState(false)\<close> for \<^verbatim>\<open>sensorData\<close> and \<^verbatim>\<open>isLoadingMore\<close>; the
    declarations of the other variables are in code that the guide leaves out, and their
    initial values come with the parameter \<open>init\<close>. It then loads the session with
    \<^verbatim>\<open>fetchSessionDetails\<close>, the only writer of \<^verbatim>\<open>sensorData\<close>.
  A request cannot be aborted (\<^verbatim>\<open>fetch\<close> is called without a signal): the handler
  of an unmounted instance goes on running and sends what it sends, but what it writes
  to the state of its instance is lost. Each request in flight therefore carries its
  owner: the mounted instance, or an unmounted one with the state it had.
  The page is rendered again between two events, so the button shows the state the last
  event left.
\<close>

datatype 'p owner = Mounted | Unmounted 'p

record ('n, 'a, 'w) ui =
  page :: "('n, 'a) HistoryDetailPage"
  environment :: "('n, 'w) env"
  in_flight :: "(('n, 'a) HistoryDetailPage owner \<times> 'n request) list"

datatype event = ClickLoadMore | RequestSettles | Remount

definition click :: "('n, 'a, 'w) ui \<Rightarrow> ('n, 'a, 'w) ui" where
  "click c =
     (if button_disabled (page c) then c
      else
        (case handleLoadMore_begin (page c) of
           Inl s' \<Rightarrow> c\<lparr>page := s'\<rparr>
         | Inr (s1, req) \<Rightarrow> c\<lparr>page := s1, in_flight := in_flight c @ [(Mounted, req)]\<rparr>))"

definition settle ::
  "('n, 'a, 'w) network \<Rightarrow> ('n, 'a, 'w) existing_code
     \<Rightarrow> ('n, 'a, 'w) ui \<Rightarrow> ('n, 'a, 'w) ui" where
  "settle net existing c =
     (case in_flight c of
        [] \<Rightarrow> c
      | (who, req) # rest \<Rightarrow>
          (case fetch net req (environment c) of
             (r, e1) \<Rightarrow>
               (case who of
                  Mounted \<Rightarrow>
                    (case handleLoadMore_resume net existing r (page c, e1) of
                       (s', e') \<Rightarrow> \<lparr>page = s', environment = e', in_flight = rest\<rparr>)
                | Unmounted old \<Rightarrow>
                    (case handleLoadMore_resume net existing r (old, e1) of
                       (s', e') \<Rightarrow>
                         \<lparr>page = page c, environment = e', in_flight = rest\<rparr>))))"

definition remount ::
  "('n, 'a, 'w) network \<Rightarrow> ('n, 'a, 'w) existing_code \<Rightarrow> ('n, 'a) HistoryDetailPage
     \<Rightarrow> ('n, 'a, 'w) ui \<Rightarrow> ('n, 'a, 'w) ui" where
  "remount net existing init c =
     (case fetchSessionDetails net existing
             (init\<lparr>sensorData := None, isLoadingMore := False\<rparr>, environment c) of
        (t, s', e') \<Rightarrow>
          \<lparr>page = s', environment = e',
           in_flight =
             map (\<lambda>(who, req).
                    (case who of Mounted \<Rightarrow> Unmounted (page c) | Unmounted old \<Rightarrow> Unmounted old,
                     req))
               (in_flight c)\<rparr>)"

fun step ::
  "('n, 'a, 'w) network \<Rightarrow> ('n, 'a, 'w) existing_code \<Rightarrow> ('n, 'a) HistoryDetailPage
     \<Rightarrow> event \<Rightarrow> ('n, 'a, 'w) ui \<Rightarrow> ('n, 'a, 'w) ui" where
  "step net existing init ClickLoadMore c = click c"
| "step net existing init RequestSettles c = settle net existing c"
| "step net existing init Remount c = remount net existing init c"

fun run ::
  "('n, 'a, 'w) network \<Rightarrow> ('n, 'a, 'w) existing_code \<Rightarrow> ('n, 'a) HistoryDetailPage
     \<Rightarrow> event list \<Rightarrow> ('n, 'a, 'w) ui \<Rightarrow> ('n, 'a, 'w) ui" where
  "run net existing init [] c = c"
| "run net existing init (ev # evs) c =
     run net existing init evs (step net existing init ev c)"

section \<open>The hardware endpoint, as given in the implementation guide\<close>

text \<open>Python's \<^verbatim>\<open>sep.join(xs)\<close>.\<close>

fun join :: "string \<Rightarrow> string list \<Rightarrow> string" where
  "join sep [] = []"
| "join sep [x] = x"
| "join sep (x # y # ys) = x @ sep @ join sep (y # ys)"

text \<open>
  The text \<^verbatim>\<open>crops_list\<close> that \<^verbatim>\<open>auto_generate_recommendations\<close> puts into the
  prompt at \<^verbatim>\<open>{already_generated}\<close>: \<^verbatim>\<open>sensor_data.already_generated or []\<close>, then one
  line \<^verbatim>\<open>- crop\<close> per name, or the fixed text for the first batch.
\<close>

definition crops_list :: "string list option \<Rightarrow> string" where
  "crops_list already_generated' =
     (let already_generated_crops =
            (case already_generated' of None \<Rightarrow> [] | Some [] \<Rightarrow> [] | Some xs \<Rightarrow> xs)
      in if already_generated_crops \<noteq> [] \<and> length already_generated_crops > 0 then
           join [CHR 0x0A] (map (\<lambda>crop. ''- '' @ crop) already_generated_crops)
         else ''None yet (this is the first batch)'')"

section \<open>The backend and the session request of the history page\<close>


text \<open>A response body with none of the fields that the client reads.\<close>

definition no_data :: "('n, 'a) data" where
  "no_data = \<lparr>data.recommendations = None, sensor_id = None, current_sensors = None\<rparr>"




text \<open>The requests that ask the generator for a batch.\<close>

fun is_generator_request :: "'n request \<Rightarrow> bool" where
  "is_generator_request (PostGenerate i f) = True"
| "is_generator_request (PostHardwareReadings i b) = True"
| "is_generator_request r = False"

section \<open>Sample values\<close>

definition sample_crop :: "string \<Rightarrow> (nat, unit) CropRecommendation" where
  "sample_crop name =
     \<lparr>crop = name, searchable_name = None, image_url = None,
      scientific_name = ''Solanum lycopersicum'', category = ''Vegetables'',
      scores = \<lparr>overall_score = 92, confidence_pct = 70, env_score = 90, econ_score = 80,
                time_fit_score = 85, season_score = 88, labor_score = 75, risk_score = 20,
                market_score = 81\<rparr>,
      growth_requirements = (), tolerances = (), management = (), economics = (),
      market_strategy = (), planting_schedule = (), risk_assessment = (),
      reasoning = ''warm and humid''\<rparr>"

definition sample_reading :: "nat SensorData" where
  "sample_reading =
     \<lparr>soil_moisture_pct = Some 28, temperature_c = Some 27, humidity_pct = Some 78,
      light_lux = Some 20000\<rparr>"

definition sample_form :: "nat FarmerFormData" where
  "sample_form =
     \<lparr>crop_category = ''Vegetables'', budget_php = 50000, waiting_tolerance_days = 90,
      land_size_ha = 1, manpower = 2\<rparr>"

definition fresh_env :: "'w \<Rightarrow> (nat, 'w) env" where
  "fresh_env w = \<lparr>world = w, sent = [], console = []\<rparr>"

definition crops_page :: "(nat, unit) CropRecommendation list option \<Rightarrow> (nat, unit) CropsPage" where
  "crops_page rs =
     \<lparr>CropsPage.recommendations = rs, isLoading = False, isGenerating = False,
      CropsPage.error = None\<rparr>"

definition history_page ::
  "(nat, unit) CropRecommendation list \<Rightarrow> nat SensorData option
     \<Rightarrow> (nat, unit) HistoryDetailPage" where
  "history_page rs sd =
     \<lparr>recommendations = rs, sensorId = Some ''s1'', sensorData = sd,
      isLoadingMore = False, error = None\<rparr>"

definition history_ui :: "(nat, unit) CropRecommendation list \<Rightarrow> (nat, unit, unit) ui" where
  "history_ui rs =
     \<lparr>page = history_page rs (Some sample_reading), environment = fresh_env (),
      in_flight = []\<rparr>"

text \<open>A network that answers every request with the same result and has no state.\<close>

definition always :: "('n, 'a) data fetch_result \<Rightarrow> ('n, 'a, unit) network" where
  "always r req w = (r, w)"

text \<open>
  The simplest behaviour of the code that \<^verbatim>\<open>fetchSessionDetails\<close> leaves out: it has
  the session object \<open>d\<close> in hand and changes nothing.
\<close>

definition existing_yields :: "('n, 'a) data \<Rightarrow> ('n, 'a, 'w) existing_code" where
  "existing_yields d se = (Reaches d, fst se, snd se)"

text \<open>
  Another behaviour of that code: it has fetched the session, shows its recommendations
  \<open>rs\<close> and has the session object \<open>d\<close> in hand.
\<close>

definition existing_shows ::
  "('n, 'a) CropRecommendation list \<Rightarrow> ('n, 'a) data \<Rightarrow> ('n, 'a, 'w) existing_code" where
  "existing_shows rs d se = (Reaches d, (fst se)\<lparr>recommendations := rs\<rparr>, snd se)"





section \<open>The handlers, case by case\<close>

lemma fetch_eq: "net req (world e) = (r, w') \<Longrightarrow>
   fetch net req e = (r, e\<lparr>world := w', sent := sent e @ [req]\<rparr>)"
  by (simp add: fetch_def)

lemma begin_guard_fails:
  "\<not> truthy (sensorId s) \<or> sensorData s = None \<Longrightarrow>
   handleLoadMore_begin s =
     Inl (s\<lparr>error := Some ''Cannot load more recommendations: sensor data not available''\<rparr>)"
  by (auto simp add: handleLoadMore_begin_def)

lemma begin_guard_passes:
  "truthy (sensorId s) \<Longrightarrow> sensorData s = Some sd \<Longrightarrow>
   handleLoadMore_begin s =
     Inr (s\<lparr>isLoadingMore := True, error := None\<rparr>,
          PostHardwareReadings (the (sensorId s))
            \<lparr>soil_moisture_pct = soil_moisture_pct sd, temperature_c = temperature_c sd,
             humidity_pct = humidity_pct sd, light_lux = light_lux sd,
             already_generated = Some (map crop (recommendations s))\<rparr>)"
  by (simp add: handleLoadMore_begin_def Let_def)

lemma handleLoadMore_unfold:
  "handleLoadMore_begin s = Inr (s1, req) \<Longrightarrow> net req (world e) = (r, w') \<Longrightarrow>
   handleLoadMore net existing (s, e) =
     handleLoadMore_resume net existing r (s1, e\<lparr>world := w', sent := sent e @ [req]\<rparr>)"
  by (simp add: handleLoadMore_def fetch_eq)

lemma resume_rejects:
  "handleLoadMore_resume net existing (Rejects err) (s, e) =
     (s\<lparr>error := Some (error_message err ''Failed to load more recommendations''),
        isLoadingMore := False\<rparr>, e)"
  by (simp add: handleLoadMore_resume_def)

lemma resume_not_ok:
  "\<not> ok response \<Longrightarrow>
   handleLoadMore_resume net existing (Resolves response) (s, e) =
     (s\<lparr>error := Some ''Failed to generate more recommendations'',
        isLoadingMore := False\<rparr>, e)"
  by (simp add: handleLoadMore_resume_def)

lemma formSubmit_rejects:
  "truthy id' \<Longrightarrow> net (PostGenerate (the id') fd) (world e) = (Rejects err, w') \<Longrightarrow>
   handleFormSubmit net id' fd (s, e) =
     (s\<lparr>isGenerating := False,
        CropsPage.error := Some (error_message err ''An error occurred'')\<rparr>,
      e\<lparr>world := w', sent := sent e @ [PostGenerate (the id') fd]\<rparr>)"
  by (simp add: handleFormSubmit_def handleFormSubmit_try_def fetch_eq Let_def)

lemma formSubmit_not_ok:
  "truthy id' \<Longrightarrow> net (PostGenerate (the id') fd) (world e) = (Resolves response, w') \<Longrightarrow>
   \<not> ok response \<Longrightarrow>
   handleFormSubmit net id' fd (s, e) =
     (s\<lparr>isGenerating := False,
        CropsPage.error := Some ''Failed to generate recommendations''\<rparr>,
      e\<lparr>world := w', sent := sent e @ [PostGenerate (the id') fd]\<rparr>)"
  by (simp add: handleFormSubmit_def handleFormSubmit_try_def fetch_eq Let_def)

lemma formSubmit_json_throws:
  "truthy id' \<Longrightarrow> net (PostGenerate (the id') fd) (world e) = (Resolves response, w') \<Longrightarrow>
   ok response \<Longrightarrow> json response = JsonThrows err \<Longrightarrow>
   handleFormSubmit net id' fd (s, e) =
     (s\<lparr>isGenerating := False,
        CropsPage.error := Some (error_message err ''An error occurred'')\<rparr>,
      e\<lparr>world := w', sent := sent e @ [PostGenerate (the id') fd]\<rparr>)"
  by (simp add: handleFormSubmit_def handleFormSubmit_try_def fetch_eq Let_def)


lemma formSubmit_sent:
  "truthy id' \<Longrightarrow>
   sent (snd (handleFormSubmit net id' fd (s, e))) = sent e @ [PostGenerate (the id') fd]"
  by (simp add: handleFormSubmit_def handleFormSubmit_try_def fetch_def Let_def
      split: prod.splits fetch_result.splits json.splits option.splits)

lemma checkExisting_empty_state:
  assumes "truthy id'"
    and "net (GetLatest (the id')) (world e) = (r, w')"
    and "\<forall>response d x xs. r = Resolves response \<longrightarrow> ok response \<longrightarrow>
           json response = JsonObject d \<longrightarrow> data.recommendations d \<noteq> Some (x # xs)"
  shows "fst (checkExistingRecommendations net id' (s, e)) =
           s\<lparr>CropsPage.recommendations := None, isLoading := False\<rparr>"
proof (cases r)
  case (Rejects err)
  with assms show ?thesis
    by (simp add: checkExistingRecommendations_def checkExistingRecommendations_try_def
        fetch_eq Let_def)
next
  case (Resolves response)
  show ?thesis
  proof (cases "ok response")
    case False
    with Resolves assms show ?thesis
      by (simp add: checkExistingRecommendations_def checkExistingRecommendations_try_def
          fetch_eq Let_def)
  next
    case True
    show ?thesis
    proof (cases "json response")
      case (JsonThrows err)
      with True Resolves assms show ?thesis
        by (simp add: checkExistingRecommendations_def checkExistingRecommendations_try_def
            fetch_eq Let_def)
    next
      case (JsonObject d)
      with True Resolves assms(3)
      have "data.recommendations d = None \<or> data.recommendations d = Some []"
        by (cases "data.recommendations d"; simp; case_tac a; simp)
      with JsonObject True Resolves assms(1,2) show ?thesis
        by (auto simp add: checkExistingRecommendations_def
            checkExistingRecommendations_try_def fetch_eq Let_def)
    qed
  qed
qed

section \<open>Hydration of the crops page\<close>

text \<open>
  Claim C6. When the request for the latest recommendations of a greenhouse is answered
  with status 404, \<^verbatim>\<open>checkExistingRecommendations\<close> ends in the state ``no
  recommendations yet'': \<^verbatim>\<open>recommendations\<close> is \<^verbatim>\<open>null\<close>, the spinner is gone, the
  error banner is what it was, nothing is thrown and nothing is written to the console;
  exactly the one request was sent. The route parameter \<^verbatim>\<open>id\<close> is present, as it is
  whenever the request is made at all.
\<close>

theorem latest_404_is_empty:
  assumes "truthy id'"
    and "net (GetLatest (the id')) (world e) = (Resolves (Response 404 body), w')"
  shows "checkExistingRecommendations net id' (s, e) =
           (s\<lparr>CropsPage.recommendations := None, isLoading := False\<rparr>,
            e\<lparr>world := w', sent := sent e @ [GetLatest (the id')]\<rparr>)"
  using assms
  by (simp add: checkExistingRecommendations_def checkExistingRecommendations_try_def
      fetch_eq ok_def Let_def)

text \<open>
  The 404 answer at a concrete page: the page that was loading shows the farmer form
  and no banner.
\<close>

theorem latest_404_is_empty_witness:
  "checkExistingRecommendations (always (Resolves (Response 404 (JsonObject no_data))))
       (Some ''g1'') (crops_page None\<lparr>isLoading := True\<rparr>, fresh_env ()) =
     (crops_page None, \<lparr>world = (), sent = [GetLatest ''g1''], console = []\<rparr>)
   \<and> render (crops_page None) = (Page None (FarmerForm False) :: nat view)"
proof -
  have h1: "truthy (Some ''g1'')" by simp
  have h2: "always (Resolves (Response 404 (JsonObject no_data))) (GetLatest (the (Some ''g1'')))
              (world (fresh_env ())) = (Resolves (Response 404 (JsonObject (no_data :: (nat, unit) data))), ())"
    by (simp add: always_def)
  show ?thesis
    using latest_404_is_empty [where id' = "Some ''g1''"
        and net = "always (Resolves (Response 404 (JsonObject no_data)))"
        and e = "fresh_env ()" and body = "JsonObject no_data" and w' = "()"
        and s = "crops_page None\<lparr>isLoading := True\<rparr>"] h1 h2
    by (simp add: crops_page_def fresh_env_def render_def)
qed

text \<open>
  Claim C10. Whatever the outcome of the request, other than a successful response with
  a non-empty list of recommendations (the request is rejected, the status is not in
  the 2xx range, the body cannot be read, or the list is missing or empty),
  \<^verbatim>\<open>checkExistingRecommendations\<close> ends with \<^verbatim>\<open>recommendations\<close> set to
  \<^verbatim>\<open>null\<close> and the spinner gone, so the page shows the farmer form; the error
  banner is never written.
\<close>

theorem hydration_failures_collapse:
  assumes "truthy id'"
    and "net (GetLatest (the id')) (world e) = (r, w')"
    and "(\<exists>err. r = Rejects err)
       \<or> (\<exists>response. r = Resolves response \<and> \<not> ok response)
       \<or> (\<exists>response err. r = Resolves response \<and> ok response \<and> json response = JsonThrows err)
       \<or> (\<exists>response d. r = Resolves response \<and> ok response \<and> json response = JsonObject d
             \<and> (data.recommendations d = None \<or> data.recommendations d = Some []))"
  shows "fst (checkExistingRecommendations net id' (s, e)) =
           s\<lparr>CropsPage.recommendations := None, isLoading := False\<rparr>
       \<and> CropsPage.error (fst (checkExistingRecommendations net id' (s, e))) = CropsPage.error s
       \<and> render (fst (checkExistingRecommendations net id' (s, e))) =
           Page (if truthy (CropsPage.error s) then CropsPage.error s else None)
             (FarmerForm (isGenerating s))"
proof -
  from assms(3) have "\<forall>response d x xs. r = Resolves response \<longrightarrow> ok response \<longrightarrow>
           json response = JsonObject d \<longrightarrow> data.recommendations d \<noteq> Some (x # xs)"
    by auto
  with assms(1,2)
  have "fst (checkExistingRecommendations net id' (s, e)) =
          s\<lparr>CropsPage.recommendations := None, isLoading := False\<rparr>"
    by (rule checkExisting_empty_state [where r = r and w' = w'])
  then show ?thesis by (simp add: render_def)
qed

text \<open>A server error, a network error and an empty body, each at a concrete page.\<close>

theorem hydration_failures_collapse_witness:
  "fst (checkExistingRecommendations (always (Resolves (Response 500 (JsonObject no_data))))
       (Some ''g1'') (crops_page None\<lparr>isLoading := True\<rparr>, fresh_env ())) = crops_page None
   \<and> fst (checkExistingRecommendations (always (Rejects (Error ''Failed to fetch'')))
       (Some ''g1'') (crops_page None\<lparr>isLoading := True\<rparr>, fresh_env ())) = crops_page None
   \<and> fst (checkExistingRecommendations (always (Resolves (Response 200 (JsonObject no_data))))
       (Some ''g1'') (crops_page None\<lparr>isLoading := True\<rparr>, fresh_env ())) = crops_page None"
proof -
  have h1: "truthy (Some ''g1'')" by simp
  have a: "always (Resolves (Response 500 (JsonObject no_data))) (GetLatest (the (Some ''g1'')))
              (world (fresh_env ())) = (Resolves (Response 500 (JsonObject (no_data :: (nat, unit) data))), ())"
    by (simp add: always_def)
  have b: "always (Rejects (Error ''Failed to fetch'')) (GetLatest (the (Some ''g1'')))
              (world (fresh_env ())) = (Rejects (Error ''Failed to fetch'') :: (nat, unit) data fetch_result, ())"
    by (simp add: always_def)
  have c: "always (Resolves (Response 200 (JsonObject no_data))) (GetLatest (the (Some ''g1'')))
              (world (fresh_env ())) = (Resolves (Response 200 (JsonObject (no_data :: (nat, unit) data))), ())"
    by (simp add: always_def)
  show ?thesis
    using hydration_failures_collapse [where id' = "Some ''g1''"
        and net = "always (Resolves (Response 500 (JsonObject no_data)))"
        and e = "fresh_env ()" and w' = "()"
        and r = "Resolves (Response 500 (JsonObject no_data))"
        and s = "crops_page None\<lparr>isLoading := True\<rparr>"]
      hydration_failures_collapse [where id' = "Some ''g1''"
        and net = "always (Rejects (Error ''Failed to fetch''))"
        and e = "fresh_env ()" and w' = "()"
        and r = "Rejects (Error ''Failed to fetch'')"
        and s = "crops_page None\<lparr>isLoading := True\<rparr>"]
      hydration_failures_collapse [where id' = "Some ''g1''"
        and net = "always (Resolves (Response 200 (JsonObject no_data)))"
        and e = "fresh_env ()" and w' = "()"
        and r = "Resolves (Response 200 (JsonObject no_data))"
        and s = "crops_page None\<lparr>isLoading := True\<rparr>"]
      h1 a b c
    by (simp add: crops_page_def ok_def no_data_def)
qed

section \<open>Failure of the generator call\<close>

text \<open>
  Claim C2, as amended. When the request to the generator is rejected (a network error)
  or answered with a status outside the 2xx range, \<^verbatim>\<open>handleLoadMore\<close> and
  \<^verbatim>\<open>handleFormSubmit\<close> set the error banner to a message (the message of the thrown
  error, or their fixed text for a status that is not ok) and leave the collection as
  it was; the same holds for \<^verbatim>\<open>handleFormSubmit\<close> when the body of a 2xx response
  cannot be parsed. The only other change is that the busy flag is off again.
\<close>

theorem failure_leaves_collection_alone:
  "(handleLoadMore_begin s = Inr (s1, req) \<longrightarrow> net req (world e) = (Rejects err, w') \<longrightarrow>
      handleLoadMore net existing (s, e) =
        (s\<lparr>isLoadingMore := False,
           error := Some (error_message err ''Failed to load more recommendations'')\<rparr>,
         e\<lparr>world := w', sent := sent e @ [req]\<rparr>))
   \<and> (handleLoadMore_begin s = Inr (s1, req) \<longrightarrow>
      net req (world e) = (Resolves response, w') \<longrightarrow> \<not> ok response \<longrightarrow>
      handleLoadMore net existing (s, e) =
        (s\<lparr>isLoadingMore := False,
           error := Some ''Failed to generate more recommendations''\<rparr>,
         e\<lparr>world := w', sent := sent e @ [req]\<rparr>))
   \<and> (truthy id' \<longrightarrow> net' (PostGenerate (the id') fd) (world e') = (Rejects err, w'') \<longrightarrow>
      handleFormSubmit net' id' fd (p, e') =
        (p\<lparr>isGenerating := False,
           CropsPage.error := Some (error_message err ''An error occurred'')\<rparr>,
         e'\<lparr>world := w'', sent := sent e' @ [PostGenerate (the id') fd]\<rparr>))
   \<and> (truthy id' \<longrightarrow> net' (PostGenerate (the id') fd) (world e') = (Resolves response, w'') \<longrightarrow>
      \<not> ok response \<longrightarrow>
      handleFormSubmit net' id' fd (p, e') =
        (p\<lparr>isGenerating := False,
           CropsPage.error := Some ''Failed to generate recommendations''\<rparr>,
         e'\<lparr>world := w'', sent := sent e' @ [PostGenerate (the id') fd]\<rparr>))
   \<and> (truthy id' \<longrightarrow> net' (PostGenerate (the id') fd) (world e') = (Resolves response, w'') \<longrightarrow>
      ok response \<longrightarrow> json response = JsonThrows err \<longrightarrow>
      handleFormSubmit net' id' fd (p, e') =
        (p\<lparr>isGenerating := False,
           CropsPage.error := Some (error_message err ''An error occurred'')\<rparr>,
         e'\<lparr>world := w'', sent := sent e' @ [PostGenerate (the id') fd]\<rparr>))"
proof -
  have s1: "s1 = s\<lparr>isLoadingMore := True, error := None\<rparr>"
    if "handleLoadMore_begin s = Inr (s1, req)"
    using that by (auto simp add: handleLoadMore_begin_def Let_def split: if_splits)
  have a: "handleLoadMore net existing (s, e) =
        (s\<lparr>isLoadingMore := False,
           error := Some (error_message err ''Failed to load more recommendations'')\<rparr>,
         e\<lparr>world := w', sent := sent e @ [req]\<rparr>)"
    if "handleLoadMore_begin s = Inr (s1, req)" "net req (world e) = (Rejects err, w')"
    using that s1 [OF that(1)]
    by (simp add: handleLoadMore_unfold [where r = "Rejects err" and w' = w'] resume_rejects)
  have b: "handleLoadMore net existing (s, e) =
        (s\<lparr>isLoadingMore := False,
           error := Some ''Failed to generate more recommendations''\<rparr>,
         e\<lparr>world := w', sent := sent e @ [req]\<rparr>)"
    if "handleLoadMore_begin s = Inr (s1, req)" "net req (world e) = (Resolves response, w')"
      "\<not> ok response"
    using that s1 [OF that(1)]
    by (simp add: handleLoadMore_unfold [where r = "Resolves response" and w' = w'] resume_not_ok)
  show ?thesis
    using a b by (simp add: formSubmit_rejects formSubmit_not_ok formSubmit_json_throws)
qed

text \<open>A status 500 on load more and a network error on the form, at concrete pages.\<close>

theorem failure_leaves_collection_alone_witness:
  "handleLoadMore (always (Resolves (Response 500 (JsonObject no_data)))) (existing_yields no_data)
       (history_page [sample_crop ''Tomato''] (Some sample_reading), fresh_env ()) =
     ((history_page [sample_crop ''Tomato''] (Some sample_reading))
         \<lparr>error := Some ''Failed to generate more recommendations''\<rparr>,
      \<lparr>world = (),
       sent = [PostHardwareReadings ''s1''
                 \<lparr>soil_moisture_pct = Some 28, temperature_c = Some 27, humidity_pct = Some 78,
                  light_lux = Some 20000, already_generated = Some [''Tomato'']\<rparr>],
       console = []\<rparr>)
   \<and> handleFormSubmit (always (Rejects (Error ''Failed to fetch''))) (Some ''g1'') sample_form
       (crops_page None, fresh_env ()) =
     ((crops_page None)\<lparr>CropsPage.error := Some ''Failed to fetch''\<rparr>,
      \<lparr>world = (), sent = [PostGenerate ''g1'' sample_form], console = []\<rparr>)"
proof -
  let ?s = "history_page [sample_crop ''Tomato''] (Some sample_reading)"
  let ?req = "PostHardwareReadings ''s1''
                 \<lparr>soil_moisture_pct = Some 28, temperature_c = Some 27, humidity_pct = Some 78,
                  light_lux = Some 20000, already_generated = Some [''Tomato'']\<rparr>"
  have h1: "handleLoadMore_begin ?s = Inr (?s\<lparr>isLoadingMore := True\<rparr>, ?req)"
    by (simp add: handleLoadMore_begin_def history_page_def sample_reading_def sample_crop_def)
  have h2: "always (Resolves (Response 500 (JsonObject no_data))) ?req (world (fresh_env ()))
              = (Resolves (Response 500 (JsonObject (no_data :: (nat, unit) data))), ())"
    by (simp add: always_def)
  have h3: "\<not> ok (Response 500 (JsonObject (no_data :: (nat, unit) data)))"
    by (simp add: ok_def)
  have h4: "truthy (Some ''g1'')" by simp
  have h5: "always (Rejects (Error ''Failed to fetch'')) (PostGenerate (the (Some ''g1'')) sample_form)
              (world (fresh_env ())) = (Rejects (Error ''Failed to fetch'') :: (nat, unit) data fetch_result, ())"
    by (simp add: always_def)
  show ?thesis
    using failure_leaves_collection_alone [where s = ?s and ?s1.0 = "?s\<lparr>isLoadingMore := True\<rparr>"
        and req = ?req and net = "always (Resolves (Response 500 (JsonObject no_data)))"
        and e = "fresh_env ()" and w' = "()" and response = "Response 500 (JsonObject no_data)"
        and existing = "existing_yields no_data"
        and id' = "Some ''g1''" and net' = "always (Rejects (Error ''Failed to fetch''))"
        and fd = sample_form and e' = "fresh_env ()" and w'' = "()"
        and err = "Error ''Failed to fetch''" and p = "crops_page None"]
      h1 h2 h3 h4 h5
    by (simp add: history_page_def fresh_env_def crops_page_def)
qed

text \<open>
  Claim C2 as stated fails for a malformed payload. A 2xx response to the form whose
  body has no \<^verbatim>\<open>recommendations\<close> field raises no error: the banner stays empty.
  A 2xx response to load more whose body does not parse raises no error either, since
  \<^verbatim>\<open>handleLoadMore\<close> never reads the body.
\<close>

theorem malformed_payload_raises_no_error:
  "handleFormSubmit (always (Resolves (Response 200 (JsonObject no_data)))) (Some ''g1'')
       sample_form (crops_page None, fresh_env ()) =
     (crops_page None, \<lparr>world = (), sent = [PostGenerate ''g1'' sample_form], console = []\<rparr>)
   \<and> handleLoadMore (always (Resolves (Response 200 (JsonThrows (Error ''Unexpected token''))))) (existing_yields no_data)
       (history_page [sample_crop ''Tomato''] (Some sample_reading), fresh_env ()) =
     (history_page [sample_crop ''Tomato''] (Some sample_reading),
      \<lparr>world = (),
       sent = [PostHardwareReadings ''s1''
                 \<lparr>soil_moisture_pct = Some 28, temperature_c = Some 27, humidity_pct = Some 78,
                  light_lux = Some 20000, already_generated = Some [''Tomato'']\<rparr>],
       console = []\<rparr>)"
  by (simp add: handleFormSubmit_def handleFormSubmit_try_def handleLoadMore_def
      handleLoadMore_begin_def handleLoadMore_resume_def fetchSessionDetails_def
      existing_yields_def fetch_def always_def ok_def no_data_def crops_page_def
      fresh_env_def history_page_def sample_reading_def sample_crop_def Let_def)

section \<open>The guard of load more\<close>

text \<open>
  Claim C7, as amended. \<^verbatim>\<open>handleLoadMore\<close> tests that the sensor id and the sensor
  reading as a whole are present. When either is missing it sets the error banner to
  ``Cannot load more recommendations: sensor data not available'' and returns: no
  request is sent, and nothing else changes. It does not look at the four fields of a
  reading that is present.
\<close>

theorem validation_guard:
  assumes "\<not> truthy (sensorId s) \<or> sensorData s = None"
  shows "handleLoadMore net existing (s, e) =
           (s\<lparr>error := Some ''Cannot load more recommendations: sensor data not available''\<rparr>, e)"
  using assms by (simp add: handleLoadMore_def begin_guard_fails)

text \<open>A page without a sensor reading: the banner is set and no request has been sent.\<close>

theorem validation_guard_witness:
  "handleLoadMore (always (Resolves (Response 200 (JsonObject no_data)))) (existing_yields no_data)
       (history_page [sample_crop ''Tomato''] None, fresh_env ()) =
     ((history_page [sample_crop ''Tomato''] None)
        \<lparr>error := Some ''Cannot load more recommendations: sensor data not available''\<rparr>,
      fresh_env ())
   \<and> sent (fresh_env ()) = ([] :: nat request list)"
proof -
  have h: "\<not> truthy (sensorId (history_page [sample_crop ''Tomato''] None))
         \<or> sensorData (history_page [sample_crop ''Tomato''] None) = None"
    by (simp add: history_page_def)
  show ?thesis
    using validation_guard [OF h, of "always (Resolves (Response 200 (JsonObject no_data)))"
        "existing_yields no_data" "fresh_env ()"]
    by (simp add: fresh_env_def)
qed

text \<open>
  Claim C7 as stated fails for a reading that is present but lacks one field. With the
  soil moisture missing, the guard passes and the request is sent without that field;
  the failure the page then shows is the server's refusal, not a local one.
\<close>

theorem partial_reading_is_sent:
  "handleLoadMore (always (Resolves (Response 422 (JsonObject no_data)))) (existing_yields no_data)
       (history_page [] (Some (sample_reading\<lparr>soil_moisture_pct := None\<rparr>)), fresh_env ()) =
     ((history_page [] (Some (sample_reading\<lparr>soil_moisture_pct := None\<rparr>)))
        \<lparr>error := Some ''Failed to generate more recommendations''\<rparr>,
      \<lparr>world = (),
       sent = [PostHardwareReadings ''s1''
                 \<lparr>soil_moisture_pct = None, temperature_c = Some 27, humidity_pct = Some 78,
                  light_lux = Some 20000, already_generated = Some []\<rparr>],
       console = []\<rparr>)"
  by (simp add: handleLoadMore_def handleLoadMore_begin_def handleLoadMore_resume_def
      fetch_def always_def ok_def fresh_env_def history_page_def sample_reading_def Let_def)

section \<open>The exclusion list\<close>

text \<open>
  Claim C3. When the guard passes, the request that \<^verbatim>\<open>handleLoadMore\<close> builds carries
  as \<^verbatim>\<open>already_generated\<close> the names (\<^verbatim>\<open>crop\<close>) of the recommendations on the page,
  one per entry and in the order of the collection. Building the request does not change
  the collection, and building it again from the resulting state gives the same request.
\<close>

theorem exclusion_list_is_names_in_order:
  assumes "truthy (sensorId s)" and "sensorData s = Some sd"
  shows "\<exists>s1 body.
           handleLoadMore_begin s = Inr (s1, PostHardwareReadings (the (sensorId s)) body)
         \<and> already_generated body = Some (map crop (recommendations s))
         \<and> length (the (already_generated body)) = length (recommendations s)
         \<and> (\<forall>i < length (recommendations s).
               the (already_generated body) ! i = crop (recommendations s ! i))
         \<and> recommendations s1 = recommendations s
         \<and> handleLoadMore_begin s1 = Inr (s1, PostHardwareReadings (the (sensorId s)) body)"
  using assms by (simp add: begin_guard_passes)

text \<open>A page with two crops.\<close>

theorem exclusion_list_is_names_in_order_witness:
  "\<exists>s1 body.
      handleLoadMore_begin (history_page [sample_crop ''Tomato'', sample_crop ''Okra''] (Some sample_reading))
        = Inr (s1, PostHardwareReadings ''s1'' body)
    \<and> already_generated body = Some [''Tomato'', ''Okra'']
    \<and> handleLoadMore_begin s1 = Inr (s1, PostHardwareReadings ''s1'' body)"
proof -
  let ?s = "history_page [sample_crop ''Tomato'', sample_crop ''Okra''] (Some sample_reading)"
  have h1: "truthy (sensorId ?s)" by (simp add: history_page_def)
  have h2: "sensorData ?s = Some sample_reading" by (simp add: history_page_def)
  from exclusion_list_is_names_in_order [OF h1 h2]
  obtain s1 body where
    "handleLoadMore_begin ?s = Inr (s1, PostHardwareReadings (the (sensorId ?s)) body)"
    "already_generated body = Some (map crop (recommendations ?s))"
    "handleLoadMore_begin s1 = Inr (s1, PostHardwareReadings (the (sensorId ?s)) body)"
    by blast
  then show ?thesis
    by (intro exI [of _ s1] exI [of _ body]) (simp add: history_page_def sample_crop_def)
qed

section \<open>The exclusion text of the prompt\<close>

lemma sublist_join:
  "x \<in> set xs \<Longrightarrow> sublist x (join sep xs)"
proof (induction sep xs rule: join.induct)
  case (1 sep)
  then show ?case by simp
next
  case (2 sep y)
  then show ?case by simp
next
  case (3 sep y z zs)
  show ?case
  proof (cases "x = y")
    case True
    then show ?thesis by simp
  next
    case False
    with 3 have "sublist x (join sep (z # zs))" by simp
    then show ?thesis by (simp add: sublist_append)
  qed
qed

lemma hd_join:
  "xs \<noteq> [] \<Longrightarrow> hd xs \<noteq> [] \<Longrightarrow> hd (join sep xs) = hd (hd xs)"
  by (induction sep xs rule: join.induct) simp_all

lemma crops_list_empty:
  "crops_list None = ''None yet (this is the first batch)''"
  "crops_list (Some []) = ''None yet (this is the first batch)''"
  by (simp_all add: crops_list_def)

lemma crops_list_nonempty:
  "xs \<noteq> [] \<Longrightarrow> crops_list (Some xs) = join [CHR 0x0A] (map (\<lambda>crop. ''- '' @ crop) xs)"
  by (cases xs) (simp_all only: crops_list_def Let_def list.case option.case length_greater_0_conv
      list.distinct simp_thms if_True)

lemma crops_list_mentions:
  assumes "x \<in> set xs"
  shows "sublist x (crops_list (Some xs))"
proof -
  from assms have ne: "xs \<noteq> []" by auto
  from assms have "''- '' @ x \<in> set (map (\<lambda>crop. ''- '' @ crop) xs)" by auto
  then have "sublist (''- '' @ x) (join [CHR 0x0A] (map (\<lambda>crop. ''- '' @ crop) xs))"
    by (rule sublist_join)
  moreover have "sublist x (''- '' @ x)" by (rule sublist_append_leftI)
  ultimately have "sublist x (join [CHR 0x0A] (map (\<lambda>crop. ''- '' @ crop) xs))"
    by (rule sublist_order.order.trans [rotated])
  then show ?thesis unfolding crops_list_nonempty [OF ne] .
qed

lemma crops_list_not_sentinel:
  assumes "xs \<noteq> []"
  shows "crops_list (Some xs) \<noteq> ''None yet (this is the first batch)''"
proof -
  from assms have "hd (join [CHR 0x0A] (map (\<lambda>crop. ''- '' @ crop) xs)) = CHR ''-''"
    by (cases xs) (simp_all add: hd_join)
  then have "hd (crops_list (Some xs)) = CHR ''-''"
    unfolding crops_list_nonempty [OF assms] .
  then show ?thesis by auto
qed

text \<open>
  Claim C4, as amended. The client sends no sentinel: for an empty collection the request
  of \<^verbatim>\<open>handleLoadMore\<close> carries \<^verbatim>\<open>already_generated\<close> as an empty array. The
  sentinel is made by the endpoint: \<^verbatim>\<open>auto_generate_recommendations\<close> turns an absent
  list and an empty list alike into the text ``None yet (this is the first batch)'', and
  a list with entries into one line per name. So the exclusion text of the prompt for an
  empty collection differs from the text for every collection with entries, and the
  name of every entry of the collection (``Tomato'', say) is in the request and in the
  text.
\<close>

theorem first_batch_text:
  assumes "handleLoadMore_begin s = Inr (s1, PostHardwareReadings sid body)"
  shows "(recommendations s = [] \<longrightarrow>
            already_generated body = Some []
          \<and> crops_list (already_generated body) = ''None yet (this is the first batch)'')
       \<and> (recommendations s \<noteq> [] \<longrightarrow>
            crops_list (already_generated body) \<noteq> ''None yet (this is the first batch)'')
       \<and> (\<forall>c \<in> set (recommendations s).
            crop c \<in> set (the (already_generated body))
          \<and> sublist (crop c) (crops_list (already_generated body)))
       \<and> crops_list None = crops_list (Some [])"
proof -
  from assms have ag: "already_generated body = Some (map crop (recommendations s))"
    by (auto simp add: handleLoadMore_begin_def Let_def split: if_splits)
  have "crops_list (Some (map crop (recommendations s))) \<noteq> ''None yet (this is the first batch)''"
    if "recommendations s \<noteq> []"
    using that by (intro crops_list_not_sentinel) simp
  moreover have "sublist (crop c) (crops_list (Some (map crop (recommendations s))))"
    if "c \<in> set (recommendations s)" for c
    using that by (intro crops_list_mentions) simp
  ultimately show ?thesis
    by (simp add: ag crops_list_empty)
qed

text \<open>The empty collection and the collection that holds ``Tomato''.\<close>

theorem first_batch_text_witness:
  "crops_list (Some []) = ''None yet (this is the first batch)''
   \<and> crops_list (Some [''Tomato'']) \<noteq> ''None yet (this is the first batch)''
   \<and> sublist ''Tomato'' (crops_list (Some [''Tomato'']))
   \<and> crops_list (Some [''Tomato'']) = ''- Tomato''"
proof -
  let ?s = "history_page [] (Some sample_reading)"
  let ?t = "history_page [sample_crop ''Tomato''] (Some sample_reading)"
  let ?b = "\<lambda>xs. \<lparr>soil_moisture_pct = Some 28, temperature_c = Some 27, humidity_pct = Some 78,
                  light_lux = Some (20000::nat), already_generated = Some xs\<rparr>"
  have h1: "handleLoadMore_begin ?s = Inr (?s\<lparr>isLoadingMore := True\<rparr>, PostHardwareReadings ''s1'' (?b []))"
    by (simp add: handleLoadMore_begin_def history_page_def sample_reading_def)
  have h2: "handleLoadMore_begin ?t = Inr (?t\<lparr>isLoadingMore := True\<rparr>, PostHardwareReadings ''s1'' (?b [''Tomato'']))"
    by (simp add: handleLoadMore_begin_def history_page_def sample_reading_def sample_crop_def)
  have "crops_list (Some [''Tomato'']) = ''- Tomato''"
    by (simp add: crops_list_def)
  with first_batch_text [OF h1] first_batch_text [OF h2] show ?thesis
    by (simp add: history_page_def sample_crop_def)
qed

text \<open>
  Claim C4 as stated fails at the empty collection: what the page sends as exclusion
  payload is the empty array.
\<close>

theorem empty_collection_sends_empty_array:
  "handleLoadMore_begin (history_page [] (Some sample_reading)) =
     Inr ((history_page [] (Some sample_reading))\<lparr>isLoadingMore := True\<rparr>,
          PostHardwareReadings ''s1''
            \<lparr>soil_moisture_pct = Some 28, temperature_c = Some 27, humidity_pct = Some 78,
             light_lux = Some 20000, already_generated = Some []\<rparr>)"
  by (simp add: handleLoadMore_begin_def history_page_def sample_reading_def)

section \<open>The requests of one call\<close>

lemma fetchSessionDetails_generator_requests:
  assumes "\<forall>se. filter is_generator_request (sent (snd (snd (existing se))))
              = filter is_generator_request (sent (snd se))"
  shows "filter is_generator_request (sent (snd (snd (fetchSessionDetails net existing se))))
           = filter is_generator_request (sent (snd se))"
proof -
  obtain out s1 e1 where ex: "existing se = (out, s1, e1)" by (cases "existing se") auto
  with assms have e1: "filter is_generator_request (sent e1)
      = filter is_generator_request (sent (snd se))"
    by (metis snd_conv)
  show ?thesis
  proof (cases out)
    case (Reaches d)
    with ex e1 show ?thesis
      by (simp add: fetchSessionDetails_def fetch_def console_error_def
          split: prod.splits fetch_result.splits json.splits)
  next
    case Returns
    with ex e1 show ?thesis by (simp add: fetchSessionDetails_def)
  next
    case (Throws err)
    with ex e1 show ?thesis by (simp add: fetchSessionDetails_def)
  qed
qed

lemma resume_generator_requests:
  assumes "\<forall>se. filter is_generator_request (sent (snd (snd (existing se))))
              = filter is_generator_request (sent (snd se))"
  shows "filter is_generator_request (sent (snd (handleLoadMore_resume net existing r (s, e))))
           = filter is_generator_request (sent e)"
proof (cases r)
  case (Rejects err)
  then show ?thesis by (simp add: resume_rejects)
next
  case (Resolves response)
  show ?thesis
  proof (cases "ok response")
    case False
    with Resolves show ?thesis by (simp add: resume_not_ok)
  next
    case True
    obtain t s2 e2 where f: "fetchSessionDetails net existing (s, e) = (t, s2, e2)"
      by (cases "fetchSessionDetails net existing (s, e)") auto
    with fetchSessionDetails_generator_requests [OF assms, of net "(s, e)"]
    have "filter is_generator_request (sent e2) = filter is_generator_request (sent e)"
      by simp
    with Resolves True f show ?thesis
      by (cases t) (simp_all add: handleLoadMore_resume_def)
  qed
qed

text \<open>
  Claim C5, as amended. A call of \<^verbatim>\<open>handleLoadMore\<close> that fails its guard sends no
  request and leaves the environment as it is. A call that passes the guard sends
  exactly one request to the generator, the POST with the four readings and the
  exclusion list (the location is not part of it; the sensor id in the path stands for
  it), provided the code left out of \<^verbatim>\<open>fetchSessionDetails\<close> sends none; after a
  successful POST it goes on to \<^verbatim>\<open>fetchSessionDetails\<close>, which sends further requests
  that are not generator requests. \<^verbatim>\<open>handleFormSubmit\<close> sends exactly one request, the
  POST to the generation endpoint, when the route parameter is present, and none
  otherwise. Neither handler has an effect other than on the page state, the requests
  and the console.
\<close>

theorem requests_of_one_call:
  "(\<not> truthy (sensorId s) \<or> sensorData s = None \<longrightarrow>
      snd (handleLoadMore net existing (s, e)) = e)
   \<and> (truthy (sensorId s) \<longrightarrow> sensorData s = Some sd \<longrightarrow>
      (\<forall>se. filter is_generator_request (sent (snd (snd (existing se))))
              = filter is_generator_request (sent (snd se))) \<longrightarrow>
      filter is_generator_request (sent (snd (handleLoadMore net existing (s, e)))) =
        filter is_generator_request (sent e) @
          [PostHardwareReadings (the (sensorId s))
            \<lparr>soil_moisture_pct = soil_moisture_pct sd, temperature_c = temperature_c sd,
             humidity_pct = humidity_pct sd, light_lux = light_lux sd,
             already_generated = Some (map crop (recommendations s))\<rparr>])
   \<and> (truthy id' \<longrightarrow>
      sent (snd (handleFormSubmit net' id' fd (p, e'))) = sent e' @ [PostGenerate (the id') fd])
   \<and> (\<not> truthy id' \<longrightarrow> handleFormSubmit net' id' fd (p, e') = (p, e'))"
proof (intro conjI impI)
  assume "\<not> truthy (sensorId s) \<or> sensorData s = None"
  then show "snd (handleLoadMore net existing (s, e)) = e"
    by (simp add: handleLoadMore_def begin_guard_fails)
next
  assume a: "truthy (sensorId s)" "sensorData s = Some sd"
    "\<forall>se. filter is_generator_request (sent (snd (snd (existing se))))
              = filter is_generator_request (sent (snd se))"
  let ?req = "PostHardwareReadings (the (sensorId s))
            \<lparr>soil_moisture_pct = soil_moisture_pct sd, temperature_c = temperature_c sd,
             humidity_pct = humidity_pct sd, light_lux = light_lux sd,
             already_generated = Some (map crop (recommendations s))\<rparr>"
  obtain r w' where n: "net ?req (world e) = (r, w')" by (cases "net ?req (world e)") auto
  from a(1,2) n have "handleLoadMore net existing (s, e) =
     handleLoadMore_resume net existing r
       (s\<lparr>isLoadingMore := True, error := None\<rparr>, e\<lparr>world := w', sent := sent e @ [?req]\<rparr>)"
    by (intro handleLoadMore_unfold begin_guard_passes)
  with resume_generator_requests [OF a(3), of net r "s\<lparr>isLoadingMore := True, error := None\<rparr>"
      "e\<lparr>world := w', sent := sent e @ [?req]\<rparr>"]
  show "filter is_generator_request (sent (snd (handleLoadMore net existing (s, e)))) =
        filter is_generator_request (sent e) @ [?req]"
    by simp
next
  assume "truthy id'"
  then show "sent (snd (handleFormSubmit net' id' fd (p, e'))) = sent e' @ [PostGenerate (the id') fd]"
    by (rule formSubmit_sent)
next
  assume "\<not> truthy id'"
  then show "handleFormSubmit net' id' fd (p, e') = (p, e')"
    by (simp add: handleFormSubmit_def)
qed

text \<open>A successful load more, a form submission, and the two calls that send nothing.\<close>

theorem requests_of_one_call_witness:
  "filter is_generator_request
     (sent (snd (handleLoadMore (always (Resolves (Response 200 (JsonObject no_data))))
       (existing_yields (no_data\<lparr>sensor_id := Some ''s1''\<rparr>))
       (history_page [sample_crop ''Tomato''] (Some sample_reading), fresh_env ())))) =
     [PostHardwareReadings ''s1''
        \<lparr>soil_moisture_pct = Some 28, temperature_c = Some 27, humidity_pct = Some 78,
         light_lux = Some 20000, already_generated = Some [''Tomato'']\<rparr>]
   \<and> sent (snd (handleFormSubmit (always (Resolves (Response 200 (JsonObject no_data))))
       (Some ''g1'') sample_form (crops_page None, fresh_env ()))) =
     [PostGenerate ''g1'' sample_form]
   \<and> handleFormSubmit (always (Resolves (Response 200 (JsonObject no_data))))
       None sample_form (crops_page None, fresh_env ()) = (crops_page None, fresh_env ())
   \<and> snd (handleLoadMore (always (Resolves (Response 200 (JsonObject no_data))))
       (existing_yields no_data) (history_page [] None, fresh_env ())) = fresh_env ()"
proof -
  let ?s = "history_page [sample_crop ''Tomato''] (Some sample_reading)"
  let ?net = "always (Resolves (Response 200 (JsonObject (no_data :: (nat, unit) data))))"
  let ?ex = "existing_yields (no_data\<lparr>sensor_id := Some ''s1''\<rparr>)
               :: (nat, unit, unit) existing_code"
  have h1: "truthy (sensorId ?s)" by (simp add: history_page_def)
  have h2: "sensorData ?s = Some sample_reading" by (simp add: history_page_def)
  have h3: "\<forall>se. filter is_generator_request (sent (snd (snd (?ex se))))
              = filter is_generator_request (sent (snd se))"
    by (simp add: existing_yields_def)
  have h4: "truthy (Some ''g1'')" by simp
  have h5: "\<not> truthy None" by simp
  have h6: "\<not> truthy (sensorId (history_page [] None)) \<or> sensorData (history_page [] None) = None"
    by (simp add: history_page_def)
  from requests_of_one_call [where s = ?s and sd = sample_reading and existing = ?ex
      and net = ?net and e = "fresh_env ()" and id' = "Some ''g1''" and net' = ?net
      and fd = sample_form and p = "crops_page None" and e' = "fresh_env ()"] h1 h2 h3 h4
  have a: "filter is_generator_request (sent (snd (handleLoadMore ?net ?ex (?s, fresh_env ())))) =
     [PostHardwareReadings ''s1''
        \<lparr>soil_moisture_pct = Some 28, temperature_c = Some 27, humidity_pct = Some 78,
         light_lux = Some 20000, already_generated = Some [''Tomato'']\<rparr>]"
    and b: "sent (snd (handleFormSubmit ?net (Some ''g1'') sample_form (crops_page None, fresh_env ()))) =
     [PostGenerate ''g1'' sample_form]"
    by (simp_all add: history_page_def fresh_env_def sample_reading_def sample_crop_def)
  from requests_of_one_call [where s = "history_page [] None" and existing = "existing_yields no_data"
      and net = ?net and e = "fresh_env ()" and id' = None and net' = ?net
      and fd = sample_form and p = "crops_page None" and e' = "fresh_env ()"] h5 h6
  have c: "handleFormSubmit ?net None sample_form (crops_page None, fresh_env ()) = (crops_page None, fresh_env ())"
    and d: "snd (handleLoadMore ?net (existing_yields no_data) (history_page [] None, fresh_env ())) = fresh_env ()"
    by simp_all
  from a b c d show ?thesis by simp
qed

text \<open>
  Claim C5 as stated fails on a successful load more: after the POST the page asks for
  the sensor's current data, a second request.
\<close>

theorem load_more_sends_more_than_one_request:
  "sent (snd (handleLoadMore (always (Resolves (Response 200 (JsonObject no_data))))
       (existing_yields (no_data\<lparr>sensor_id := Some ''s1''\<rparr>))
       (history_page [sample_crop ''Tomato''] (Some sample_reading), fresh_env ()))) =
     [PostHardwareReadings ''s1''
        \<lparr>soil_moisture_pct = Some 28, temperature_c = Some 27, humidity_pct = Some 78,
         light_lux = Some 20000, already_generated = Some [''Tomato'']\<rparr>,
      GetSensor ''s1'']"
  by (simp add: handleLoadMore_def handleLoadMore_begin_def handleLoadMore_resume_def
      fetchSessionDetails_def existing_yields_def fetch_def always_def ok_def no_data_def
      fresh_env_def history_page_def sample_reading_def sample_crop_def Let_def)

section \<open>The collection after a successful load more\<close>











section \<open>The size of a batch\<close>






section \<open>Load more requests in flight\<close>

text \<open>
  Claim C9. The only lock on load more is the \<^verbatim>\<open>isLoadingMore\<close> flag of the mounted
  page instance, which disables the button; the handler does not test it, and a new
  instance starts with the flag off. From a page whose button is enabled and that has no
  request in flight, a click, a remount that brings back the same page, and a second
  click leave two load more requests in flight at the same time, the first owned by
  the unmounted instance. The two requests are the same: each carries as exclusion list
  the names of the collection that the page showed before the first click.
\<close>

theorem two_load_more_requests_in_flight:
  assumes "\<not> button_disabled (page c)" and "truthy (sensorId (page c))"
    and "page (remount net existing init (click c)) = page c"
    and "in_flight c = []"
  shows "\<exists>sid body old.
           in_flight (run net existing init [ClickLoadMore, Remount, ClickLoadMore] c) =
             [(Unmounted old, PostHardwareReadings sid body),
              (Mounted, PostHardwareReadings sid body)]
         \<and> already_generated body = Some (map crop (recommendations (page c)))"
proof -
  from assms(1) obtain sd where sd: "sensorData (page c) = Some sd"
    by (auto simp add: button_disabled_def)
  let ?s1 = "(page c)\<lparr>isLoadingMore := True, error := None\<rparr>"
  let ?body = "\<lparr>soil_moisture_pct = soil_moisture_pct sd, temperature_c = temperature_c sd,
             humidity_pct = humidity_pct sd, light_lux = light_lux sd,
             already_generated = Some (map crop (recommendations (page c)))\<rparr>"
  let ?req = "PostHardwareReadings (the (sensorId (page c))) ?body"
  have b: "handleLoadMore_begin (page c) = Inr (?s1, ?req)"
    using assms(2) sd by (rule begin_guard_passes)
  have c1: "click c = c\<lparr>page := ?s1, in_flight := in_flight c @ [(Mounted, ?req)]\<rparr>"
    using assms(1) b by (simp add: click_def)
  obtain t s' e' where f: "fetchSessionDetails net existing
             (init\<lparr>sensorData := None, isLoadingMore := False\<rparr>, environment (click c)) = (t, s', e')"
    by (cases "fetchSessionDetails net existing
             (init\<lparr>sensorData := None, isLoadingMore := False\<rparr>, environment (click c))") auto
  let ?m = "\<lambda>(who, req). (case who of Mounted \<Rightarrow> Unmounted (page c) | Unmounted x \<Rightarrow> Unmounted x, req)"
  let ?m1 = "\<lambda>(who, req). (case who of Mounted \<Rightarrow> Unmounted ?s1 | Unmounted x \<Rightarrow> Unmounted x, req)"
  have r: "remount net existing init (click c) =
      \<lparr>page = s', environment = e', in_flight = map ?m1 (in_flight c) @ [(Unmounted ?s1, ?req)]\<rparr>"
    using f by (simp add: remount_def c1 split: prod.splits owner.splits)
  with assms(3) have p: "s' = page c" by simp
  have c2: "click (remount net existing init (click c)) =
      \<lparr>page = ?s1, environment = e',
       in_flight = map ?m1 (in_flight c) @ [(Unmounted ?s1, ?req), (Mounted, ?req)]\<rparr>"
    unfolding r p using assms(1) b by (simp add: click_def)
  have "run net existing init [ClickLoadMore, Remount, ClickLoadMore] c =
      click (remount net existing init (click c))"
    by simp
  with c2 assms(4) show ?thesis by simp
qed

text \<open>
  A page with one crop: the user loads more, opens a crop, comes back while the request
  is outstanding, and loads more again.
\<close>

theorem two_load_more_requests_in_flight_witness:
  "\<exists>sid body old.
      in_flight (run (always (Resolves (Response 200 (JsonObject
                    (no_data\<lparr>current_sensors := Some sample_reading\<rparr>)))))
           (existing_shows [sample_crop ''Tomato''] (no_data\<lparr>sensor_id := Some ''s1''\<rparr>))
           (history_page [] None)
           [ClickLoadMore, Remount, ClickLoadMore] (history_ui [sample_crop ''Tomato''])) =
        [(Unmounted old, PostHardwareReadings sid body),
         (Mounted, PostHardwareReadings sid body)]
    \<and> already_generated body = Some [''Tomato'']"
proof -
  let ?c = "history_ui [sample_crop ''Tomato'']"
  let ?net = "always (Resolves (Response 200 (JsonObject
                    (no_data\<lparr>current_sensors := Some sample_reading\<rparr> :: (nat, unit) data))))"
  let ?ex = "existing_shows [sample_crop ''Tomato''] (no_data\<lparr>sensor_id := Some ''s1''\<rparr>)
               :: (nat, unit, unit) existing_code"
  have h1: "\<not> button_disabled (page ?c)"
    by (simp add: button_disabled_def history_ui_def history_page_def)
  have h2: "truthy (sensorId (page ?c))" by (simp add: history_ui_def history_page_def)
  have h3: "page (remount ?net ?ex (history_page [] None) (click ?c)) = page ?c"
    by (simp add: remount_def click_def button_disabled_def handleLoadMore_begin_def
        fetchSessionDetails_def existing_shows_def fetch_def always_def ok_def no_data_def
        history_ui_def history_page_def fresh_env_def Let_def)
  have h4: "in_flight ?c = []" by (simp add: history_ui_def)
  have h5: "map crop (recommendations (page ?c)) = [''Tomato'']"
    by (simp add: history_ui_def history_page_def sample_crop_def)
  from two_load_more_requests_in_flight [where c = ?c and net = ?net and existing = ?ex
      and init = "history_page [] None", OF h1 h2 h3 h4]
  show ?thesis by (simp only: h5)
qed

end
